theory Spec2Isabelle
  imports Complex_Main "HOL-Library.Word" "HOL-Library.Monad_Syntax"
begin

unbundle bit_operations_syntax

section \<open>JavaScript values used by art-generator.js\<close>

text \<open>
  A JavaScript number is modelled by its mathematical value: \<open>int\<close> where the source
  keeps the value integral (the generator's 32-bit state, loop counters, colour
  channels), \<open>real\<close> elsewhere. IEEE rounding is not modelled. \<open>NaN\<close> is modelled by
  \<open>None\<close> at the three places where the code can produce it from finite inputs
  (\<open>parseInt\<close>, \<open>getHours\<close> of an invalid date, \<open>0 / 0\<close> on a canvas of width 0).

  A JavaScript string is its list of UTF-16 code units.
\<close>

type_synonym jsstring = "nat list"

definition str :: "string \<Rightarrow> jsstring" where
  "str cs = map of_char cs"

text \<open>\<open>s.slice(a, b)\<close> for literal \<open>0 \<le> a \<le> b\<close>.\<close>

definition slice :: "nat \<Rightarrow> nat \<Rightarrow> jsstring \<Rightarrow> jsstring" where
  "slice a b s = take (b - a) (drop a s)"

subsection \<open>32-bit operators\<close>

text \<open>
  The bitwise operators convert their operands with \<open>ToInt32\<close> (\<open>>>>\<close> converts the
  left one with \<open>ToUint32\<close> and masks the shift count to five bits);
  \<open>Math.imul\<close> multiplies modulo \<open>2^32\<close> and returns an int32.
\<close>

definition toInt32 :: "int \<Rightarrow> int" where
  "toInt32 x = signed_take_bit 31 x"

definition toUint32 :: "int \<Rightarrow> int" where
  "toUint32 x = take_bit 32 x"

definition js_or :: "int \<Rightarrow> int \<Rightarrow> int" where
  "js_or a b = toInt32 (toInt32 a OR toInt32 b)"

definition js_xor :: "int \<Rightarrow> int \<Rightarrow> int" where
  "js_xor a b = toInt32 (toInt32 a XOR toInt32 b)"

definition js_ushr :: "int \<Rightarrow> int \<Rightarrow> int" where
  "js_ushr a n = drop_bit (nat (take_bit 5 (toUint32 n))) (toUint32 a)"

definition imul :: "int \<Rightarrow> int \<Rightarrow> int" where
  "imul a b = toInt32 (toUint32 a * toUint32 b)"

subsection \<open>\<open>parseInt(s, 16)\<close>\<close>

text \<open>
  ECMAScript \<open>parseInt\<close> with radix 16: leading white space is skipped, one sign is
  read, a \<open>0x\<close>/\<open>0X\<close> prefix is dropped, and the longest run of hexadecimal digits is
  the value; no digit at all gives \<open>NaN\<close> (\<open>None\<close>). The code calls it on slices of
  at most two code units, where the value is exact.
\<close>

definition isWhiteSpace :: "nat \<Rightarrow> bool" where
  "isWhiteSpace c =
     (c \<in> {0x9, 0xA, 0xB, 0xC, 0xD, 0x20, 0xA0, 0x1680, 0x2028, 0x2029, 0x202F, 0x205F,
            0x3000, 0xFEFF}
      \<or> (0x2000 \<le> c \<and> c \<le> 0x200A))"

definition hexDigit :: "nat \<Rightarrow> nat option" where
  "hexDigit c =
     (if 48 \<le> c \<and> c \<le> 57 then Some (c - 48)
      else if 97 \<le> c \<and> c \<le> 102 then Some (c - 87)
      else if 65 \<le> c \<and> c \<le> 70 then Some (c - 55)
      else None)"

fun hexDigits :: "jsstring \<Rightarrow> nat list" where
  "hexDigits [] = []"
| "hexDigits (c # cs) = (case hexDigit c of None \<Rightarrow> [] | Some d \<Rightarrow> d # hexDigits cs)"

fun stripSign :: "jsstring \<Rightarrow> int \<times> jsstring" where
  "stripSign [] = (1, [])"
| "stripSign (c # cs) =
     (if c = 45 then (- 1, cs) else if c = 43 then (1, cs) else (1, c # cs))"

fun stripPrefix :: "jsstring \<Rightarrow> jsstring" where
  "stripPrefix (a # b # cs) = (if a = 48 \<and> (b = 120 \<or> b = 88) then cs else a # b # cs)"
| "stripPrefix cs = cs"

definition parseInt16 :: "jsstring \<Rightarrow> int option" where
  "parseInt16 input =
     (let (sign, s) = stripSign (dropWhile isWhiteSpace input);
          z = hexDigits (stripPrefix s)
      in if z = [] then None
         else Some (sign * int (foldl (\<lambda>acc d. 16 * acc + d) 0 z)))"

section \<open>createRandom: the seeded random source (Mulberry32)\<close>

text \<open>
  \<open>createRandom(seed)\<close> returns a closure over the variable \<open>s\<close>. The model keeps \<open>s\<close>
  as the state: \<open>createRandom\<close> gives its first value, \<open>rand_call\<close> is one call of
  the closure, returning the draw and the new \<open>s\<close>.
\<close>

definition createRandom :: "int \<Rightarrow> int" where
  "createRandom seed = js_or seed 0"

definition rand_call :: "int \<Rightarrow> real \<times> int" where
  "rand_call s0 =
     (let s = js_or (s0 + 0x6d2b79f5) 0;
          t = imul (js_xor s (js_ushr s 15)) (js_or 1 s);
          t = js_xor (t + imul (js_xor t (js_ushr t 7)) (js_or 61 t)) t
      in (real_of_int (js_ushr (js_xor t (js_ushr t 14)) 0) / 4294967296, s))"

text \<open>The closure's variable after \<open>n\<close> calls.\<close>

fun rand_state :: "int \<Rightarrow> nat \<Rightarrow> int" where
  "rand_state seed 0 = createRandom seed"
| "rand_state seed (Suc n) = snd (rand_call (rand_state seed n))"

text \<open>
  The algorithm as the specification words it, on 32-bit words: \<open>+\<close> and \<open>*\<close> wrap
  around, \<open>>>>\<close> is the logical shift \<open>drop_bit\<close>.
\<close>

definition spec_next :: "32 word \<Rightarrow> real \<times> 32 word" where
  "spec_next s0 =
     (let s = s0 + 0x6D2B79F5;
          t = (s XOR drop_bit 15 s) * (s OR 1);
          t = (t + (t XOR drop_bit 7 t) * (t OR 61)) XOR t
      in (real (unat (t XOR drop_bit 14 t)) / 2 ^ 32, s))"

fun spec_state :: "int \<Rightarrow> nat \<Rightarrow> 32 word" where
  "spec_state seed 0 = word_of_int seed"
| "spec_state seed (Suc n) = snd (spec_next (spec_state seed n))"

section \<open>Colour utilities\<close>

text \<open>
  The strings built by the template literals are kept structured:
  \<open>Rgb r g b\<close> is \<open>`rgb(${r}, ${g}, ${b})`\<close>, \<open>Rgba r g b a\<close> is
  \<open>`rgba(${r}, ${g}, ${b}, ${a})`\<close>, \<open>Hsla h\<close> is \<open>`hsla(${h}, 80%, 60%, 0.08)`\<close>;
  a channel \<open>None\<close> prints as \<open>NaN\<close>. \<open>Lit s\<close> is a string taken as it is (a palette
  entry or a string constant of the source).
\<close>

datatype css =
    Lit jsstring
  | Rgb "int option" "int option" "int option"
  | Rgba "int option" "int option" "int option" real
  | Hsla real

text \<open>\<open>Math.round\<close>: the nearest integer, ties towards \<open>+\<infinity>\<close>.\<close>

definition math_round :: "real \<Rightarrow> int" where
  "math_round x = \<lfloor>x + 1 / 2\<rfloor>"

text \<open>\<open>Math.round(a + (b - a) * t)\<close>, where \<open>a\<close> or \<open>b\<close> may be \<open>NaN\<close>.\<close>

definition lerpChannel :: "int option \<Rightarrow> int option \<Rightarrow> real \<Rightarrow> int option" where
  "lerpChannel a b t =
     (case a of None \<Rightarrow> None
      | Some x \<Rightarrow> (case b of None \<Rightarrow> None
          | Some y \<Rightarrow> Some (math_round (real_of_int x + (real_of_int y - real_of_int x) * t))))"

definition lerpColor :: "jsstring \<Rightarrow> jsstring \<Rightarrow> real \<Rightarrow> css" where
  "lerpColor color1 color2 t =
     (let r1 = parseInt16 (slice 1 3 color1);
          g1 = parseInt16 (slice 3 5 color1);
          b1 = parseInt16 (slice 5 7 color1);
          r2 = parseInt16 (slice 1 3 color2);
          g2 = parseInt16 (slice 3 5 color2);
          b2 = parseInt16 (slice 5 7 color2);
          r = lerpChannel r1 r2 t;
          g = lerpChannel g1 g2 t;
          b = lerpChannel b1 b2 t
      in Rgb r g b)"

text \<open>
  \<open>withAlpha(hex, alpha)\<close>. The argument is a palette entry: \<open>Some s\<close> is the string
  \<open>s\<close>, \<open>None\<close> is \<open>undefined\<close> (an index outside the palette), on which
  \<open>hex.slice\<close> raises a TypeError: the result \<open>None\<close>.
\<close>

definition withAlpha :: "jsstring option \<Rightarrow> real \<Rightarrow> css option" where
  "withAlpha hex alpha =
     (case hex of None \<Rightarrow> None
      | Some s \<Rightarrow>
          (let r = parseInt16 (slice 1 3 s);
               g = parseInt16 (slice 3 5 s);
               b = parseInt16 (slice 5 7 s)
           in Some (Rgba r g b alpha)))"

text \<open>
  The fallback the specification describes: a channel that does not parse counts as
  zero.
\<close>

definition channelOrZero :: "jsstring \<Rightarrow> int option" where
  "channelOrZero s = (case parseInt16 s of None \<Rightarrow> Some 0 | Some v \<Rightarrow> Some v)"

definition spec_withAlpha :: "jsstring \<Rightarrow> real \<Rightarrow> css" where
  "spec_withAlpha s alpha =
     Rgba (channelOrZero (slice 1 3 s)) (channelOrZero (slice 3 5 s))
          (channelOrZero (slice 5 7 s)) alpha"

definition spec_lerpColor :: "jsstring \<Rightarrow> jsstring \<Rightarrow> real \<Rightarrow> css" where
  "spec_lerpColor color1 color2 t =
     Rgb (lerpChannel (channelOrZero (slice 1 3 color1)) (channelOrZero (slice 1 3 color2)) t)
         (lerpChannel (channelOrZero (slice 3 5 color1)) (channelOrZero (slice 3 5 color2)) t)
         (lerpChannel (channelOrZero (slice 5 7 color1)) (channelOrZero (slice 5 7 color2)) t)"

section \<open>Palettes\<close>

definition PALETTES_serene :: "jsstring list" where
  "PALETTES_serene = map str
     [''#1a1a4e'', ''#2d2b7f'', ''#3f51b5'', ''#7986cb'', ''#c5cae9'',
      ''#4fc3f7'', ''#81d4fa'', ''#b3e5fc'']"

definition PALETTES_twilight :: "jsstring list" where
  "PALETTES_twilight = map str
     [''#1a0a3e'', ''#4a148c'', ''#7b1fa2'', ''#ab47bc'', ''#ce93d8'',
      ''#00bcd4'', ''#26c6da'', ''#80deea'']"

definition PALETTES_midnight :: "jsstring list" where
  "PALETTES_midnight = map str
     [''#1a0a2e'', ''#880e4f'', ''#c62828'', ''#e91e63'', ''#f06292'',
      ''#ff7043'', ''#ffab91'', ''#ffd54f'']"

definition PALETTES_latenight :: "jsstring list" where
  "PALETTES_latenight = map str
     [''#1a0f05'', ''#4e342e'', ''#bf360c'', ''#e65100'', ''#ff8f00'',
      ''#ffc107'', ''#ffecb3'', ''#fff8e1'']"

text \<open>
  Comparisons of the hour with a constant; every comparison with \<open>NaN\<close> is false.
\<close>

definition num_ge :: "int option \<Rightarrow> int \<Rightarrow> bool" where
  "num_ge x k = (case x of None \<Rightarrow> False | Some v \<Rightarrow> k \<le> v)"

definition num_lt :: "int option \<Rightarrow> int \<Rightarrow> bool" where
  "num_lt x k = (case x of None \<Rightarrow> False | Some v \<Rightarrow> v < k)"

text \<open>
  \<open>selectPalette(bedtimeISO)\<close>. \<open>new Date(bedtimeISO).getHours()\<close> is the host's: the
  parameter \<open>getHours\<close> gives the local hour of the string, \<open>None\<close> (\<open>NaN\<close>) for a
  string that is not a date.
\<close>

definition selectPalette :: "(jsstring \<Rightarrow> int option) \<Rightarrow> jsstring \<Rightarrow> jsstring list" where
  "selectPalette getHours bedtimeISO =
     (let hour = getHours bedtimeISO
      in if num_ge hour 20 \<and> num_lt hour 22 then PALETTES_serene
         else if num_ge hour 22 \<or> num_lt hour 0 then PALETTES_twilight
         else if num_ge hour 0 \<and> num_lt hour 2 then PALETTES_midnight
         else PALETTES_latenight)"

section \<open>Metrics computed by generate\<close>

text \<open>
  The values of the local constants \<open>quality\<close> and \<open>complexity\<close> of \<open>generate\<close>
  (lines 133-134 and 137), as functions of \<open>record.duration\<close>; the constant \<open>streak\<close>
  (line 122) is defined with the options below.
\<close>

definition generate_quality :: "real \<Rightarrow> real" where
  "generate_quality duration = (let idealDiff = \<bar>duration - 7.5\<bar> in max 0 (1 - idealDiff / 5))"

definition generate_complexity :: "real \<Rightarrow> real" where
  "generate_complexity duration = min 1 (duration / 10)"

section \<open>The drawing surface\<close>

text \<open>
  The 2D context is modelled by the list of calls made on it, in order. A gradient
  object is recorded where it is assigned to \<open>fillStyle\<close>, with the colour stops it has
  then. The second coordinate of \<open>lineTo\<close> is \<open>None\<close> when it is \<open>NaN\<close>.
\<close>

datatype paint =
    Color css
  | Radial real real real real real real "(real \<times> css) list"
  | Linear real real real real "(real \<times> css) list"

datatype call =
    SetFillStyle paint
  | SetStrokeStyle paint
  | SetLineWidth real
  | FillRect real real real real
  | BeginPath
  | ClosePath
  | MoveTo real real
  | LineTo real "real option"
  | BezierCurveTo real real real real real real
  | Arc real real real real real
  | Rect real real real real
  | Fill
  | Stroke
  | Save
  | Restore
  | Translate real real
  | Rotate real

text \<open>
  What a drawing stage works on: the context \<open>ctx\<close> and the variable \<open>s\<close> of the
  closure \<open>rand\<close>. A stage returns \<open>None\<close> when it raises (the TypeError of
  \<open>withAlpha\<close> on \<open>undefined\<close>).
\<close>

record painter =
  ctx :: "call list"
  rng :: int

definition emit :: "call \<Rightarrow> painter \<Rightarrow> painter" where
  "emit c p = p\<lparr>ctx := ctx p @ [c]\<rparr>"

definition emits :: "call list \<Rightarrow> painter \<Rightarrow> painter" where
  "emits cs p = p\<lparr>ctx := ctx p @ cs\<rparr>"

definition rand :: "painter \<Rightarrow> real \<times> painter" where
  "rand p = (let (v, s) = rand_call (rng p) in (v, p\<lparr>rng := s\<rparr>))"

text \<open>\<open>for (let i = i0; i < n; i++) body\<close>, stopping when the body raises.\<close>

function forLoop ::
  "int \<Rightarrow> int \<Rightarrow> (int \<Rightarrow> painter \<Rightarrow> painter option) \<Rightarrow> painter \<Rightarrow> painter option" where
  "forLoop i n body p =
     (if i < n
      then (case body i p of None \<Rightarrow> None | Some p' \<Rightarrow> forLoop (i + 1) n body p')
      else Some p)"
  by pat_completeness auto
termination
  by (relation "measure (\<lambda>(i, n, body, p). nat (n - i))") auto

declare forLoop.simps [simp del]

text \<open>\<open>palette[i]\<close>: \<open>None\<close> is \<open>undefined\<close>.\<close>

definition paletteAt :: "jsstring list \<Rightarrow> int \<Rightarrow> jsstring option" where
  "paletteAt palette i =
     (if 0 \<le> i \<and> i < int (length palette) then Some (palette ! nat i) else None)"

text \<open>\<open>a || b\<close> on palette entries: \<open>undefined\<close> and the empty string are falsy.\<close>

definition orElse :: "jsstring option \<Rightarrow> jsstring option \<Rightarrow> jsstring option" where
  "orElse a b = (case a of None \<Rightarrow> b | Some s \<Rightarrow> if s = [] then b else Some s)"

definition orLit :: "jsstring option \<Rightarrow> string \<Rightarrow> jsstring" where
  "orLit a lit = (case a of None \<Rightarrow> str lit | Some s \<Rightarrow> if s = [] then str lit else s)"

definition transparent :: css where
  "transparent = Lit (str ''transparent'')"

section \<open>The drawing stages\<close>

subsection \<open>Layer 1: drawBackground\<close>

definition drawBackground :: "nat \<Rightarrow> nat \<Rightarrow> jsstring list \<Rightarrow> painter \<Rightarrow> painter option" where
  "drawBackground w h palette p0 =
     (let (r, p) = rand p0; cx = real w * (0.3 + r * 0.4);
          (r, p) = rand p; cy = real h * (0.3 + r * 0.4);
          radius = real (max w h) * 0.8;
          gradient = Radial cx cy 0 cx cy radius
            [(0, Lit (orLit (paletteAt palette 1) ''#1a1a4e'')),
             (0.5, Lit (orLit (paletteAt palette 0) ''#0a0a2e'')),
             (1, Lit (str ''#050510''))];
          p = emits [SetFillStyle gradient, FillRect 0 0 (real w) (real h)] p;
          (r, p) = rand p; cx2 = real w * r;
          (r, p) = rand p; cy2 = real h * r
      in do {
           c \<leftarrow> withAlpha (Some (orLit (paletteAt palette 2) ''#3f51b5'')) 0.15;
           let gradient2 = Radial cx2 cy2 0 cx2 cy2 (radius * 0.6) [(0, c), (1, transparent)];
           Some (emits [SetFillStyle gradient2, FillRect 0 0 (real w) (real h)] p)
         })"

subsection \<open>Layer 2: drawAurora\<close>

text \<open>The inner loop \<open>for (let x = 0; x <= w; x += 2)\<close>; \<open>x / w\<close> is \<open>NaN\<close> when \<open>w = 0\<close>.\<close>

function curvePoints ::
  "nat \<Rightarrow> nat \<Rightarrow> real \<Rightarrow> real \<Rightarrow> real \<Rightarrow> real \<Rightarrow> painter \<Rightarrow> painter" where
  "curvePoints x w yOffset frequency phase amplitude p =
     (if x \<le> w
      then curvePoints (x + 2) w yOffset frequency phase amplitude
             (emit (LineTo (real x)
                (if w = 0 then None
                 else Some (yOffset
                   + sin ((real x / real w) * pi * frequency + phase) * amplitude
                   + sin ((real x / real w) * pi * frequency * 2.3 + phase * 1.7)
                       * amplitude * 0.3))) p)
      else p)"
  by pat_completeness auto
termination
  by (relation "measure (\<lambda>(x, w, yOffset, frequency, phase, amplitude, p). w + 1 - x)") auto

declare curvePoints.simps [simp del]

definition auroraCurve ::
  "nat \<Rightarrow> nat \<Rightarrow> jsstring list \<Rightarrow> real \<Rightarrow> painter \<Rightarrow> painter option" where
  "auroraCurve w h palette quality p0 =
     (let p = emit BeginPath p0;
          (r, p) = rand p; amplitude = real h * (0.05 + r * 0.15);
          (r, p) = rand p; frequency = 1 + r * 3;
          (r, p) = rand p; phase = r * pi * 2;
          (r, p) = rand p; yOffset = real h * (0.2 + r * 0.6);
          (r, p) = rand p;
          colorIdx = (if quality > 0.7 then \<lfloor>r * 3\<rfloor> + 2
                      else \<lfloor>r * real (length palette)\<rfloor>);
          p = emit (MoveTo 0 yOffset) p;
          p = curvePoints 0 w yOffset frequency phase amplitude p;
          p = emits [LineTo (real w) (Some (real h)), LineTo 0 (Some (real h)), ClosePath] p
      in do {
           c0 \<leftarrow> withAlpha (orElse (paletteAt palette colorIdx) (paletteAt palette 0)) (0.08 + quality * 0.06);
           c1 \<leftarrow> withAlpha (orElse (paletteAt palette colorIdx) (paletteAt palette 0)) 0.03;
           let grad = Linear 0 (yOffset - amplitude) 0 (real h)
                        [(0, c0), (0.5, c1), (1, transparent)];
           Some (emits [SetFillStyle grad, Fill] p)
         })"

definition drawAurora ::
  "nat \<Rightarrow> nat \<Rightarrow> jsstring list \<Rightarrow> real \<Rightarrow> real \<Rightarrow> painter \<Rightarrow> painter option" where
  "drawAurora w h palette complexity quality p =
     (let numCurves = 3 + \<lfloor>complexity * 4\<rfloor>
      in forLoop 0 numCurves (\<lambda>i. auroraCurve w h palette quality) p)"

subsection \<open>Layer 3: drawOrbs\<close>

definition orb :: "nat \<Rightarrow> nat \<Rightarrow> jsstring list \<Rightarrow> real \<Rightarrow> painter \<Rightarrow> painter option" where
  "orb w h palette quality p0 =
     (let (r, p) = rand p0; x = r * real w;
          (r, p) = rand p; y = r * real h;
          (r, p) = rand p; radius = (10 + r * 40) * (0.5 + quality * 0.5) * (real w / 400);
          (r, p) = rand p; color = paletteAt palette \<lfloor>r * real (length palette)\<rfloor>;
          (r, p) = rand p
      in do {
           c0 \<leftarrow> withAlpha color (0.15 + r * 0.15);
           c1 \<leftarrow> withAlpha color 0.05;
           let gradient = Radial x y 0 x y radius [(0, c0), (0.6, c1), (1, transparent)];
           Some (emits [BeginPath, Arc x y radius 0 (pi * 2), SetFillStyle gradient, Fill] p)
         })"

definition drawOrbs ::
  "nat \<Rightarrow> nat \<Rightarrow> jsstring list \<Rightarrow> real \<Rightarrow> real \<Rightarrow> painter \<Rightarrow> painter option" where
  "drawOrbs w h palette duration quality p =
     (let numOrbs = 5 + \<lfloor>duration * 2.5\<rfloor>
      in forLoop 0 numOrbs (\<lambda>i. orb w h palette quality) p)"

subsection \<open>Layer 4: drawGeometry\<close>

definition spoke ::
  "jsstring list \<Rightarrow> real \<Rightarrow> real \<Rightarrow> int \<Rightarrow> painter \<Rightarrow> painter option" where
  "spoke palette angleStep maxRadius i p0 =
     (let p = emits [Save, Rotate (angleStep * real_of_int i)] p0;
          (r, p) = rand p; lineLen = maxRadius * (0.5 + r * 0.5);
          (r, p) = rand p;
          color = paletteAt palette (2 + \<lfloor>r * (real (length palette) - 2)\<rfloor>);
          p = emits [BeginPath, MoveTo 0 0] p;
          (r, p) = rand p; cp1x = lineLen * 0.3 * (r - 0.5); cp1y = - lineLen * 0.4;
          (r, p) = rand p; cp2x = lineLen * 0.3 * (r - 0.5); cp2y = - lineLen * 0.8;
          p = emit (BezierCurveTo cp1x cp1y cp2x cp2y 0 (- lineLen)) p
      in do {
           c \<leftarrow> withAlpha color 0.3;
           let (r, p) = rand p;
           let p = emits [SetStrokeStyle (Color c), SetLineWidth (1 + r * 1.5), Stroke] p;
           let (r, p) = rand p;
           let p = emits [BeginPath, Arc 0 (- lineLen) (2 + r * 4) 0 (pi * 2)] p;
           c' \<leftarrow> withAlpha color 0.4;
           Some (emits [SetFillStyle (Color c'), Fill, Restore] p)
         })"

definition centerRing ::
  "jsstring list \<Rightarrow> real \<Rightarrow> real \<Rightarrow> int \<Rightarrow> painter \<Rightarrow> painter option" where
  "centerRing palette maxRadius quality ring p0 =
     (let (r, p) = rand p0;
          ringRadius = maxRadius * (0.2 + real_of_int ring * 0.2) * (0.8 + r * 0.4);
          (r, p) = rand p; ringColor = paletteAt palette \<lfloor>r * real (length palette)\<rfloor>;
          p = emits [BeginPath, Arc 0 0 ringRadius 0 (pi * 2)] p
      in do {
           c \<leftarrow> withAlpha ringColor (0.15 + quality * 0.1);
           let (r, p) = rand p;
           Some (emits [SetStrokeStyle (Color c), SetLineWidth (0.5 + r * 1), Stroke] p)
         })"

definition drawGeometry ::
  "nat \<Rightarrow> nat \<Rightarrow> jsstring list \<Rightarrow> real \<Rightarrow> painter \<Rightarrow> painter option" where
  "drawGeometry w h palette quality p0 =
     (let cx = real w / 2;
          cy = real h / 2;
          symmetry = 4 + \<lfloor>quality * 8\<rfloor>;
          angleStep = (pi * 2) / real_of_int symmetry;
          maxRadius = real (min w h) * (0.15 + quality * 0.1);
          p = emits [Save, Translate cx cy] p0
      in do {
           p \<leftarrow> forLoop 0 symmetry (spoke palette angleStep maxRadius) p;
           p \<leftarrow> forLoop 0 3 (centerRing palette maxRadius quality) p;
           Some (emit Restore p)
         })"

subsection \<open>Layer 5: drawStars\<close>

definition white :: "real \<Rightarrow> css" where
  "white a = Rgba (Some 255) (Some 255) (Some 255) a"

definition star :: "nat \<Rightarrow> nat \<Rightarrow> painter \<Rightarrow> painter" where
  "star w h p0 =
     (let (r, p) = rand p0; x = r * real w;
          (r, p) = rand p; y = r * real h;
          (r, p) = rand p; size = 0.5 + r * 2;
          (r, p) = rand p; brightness = 0.3 + r * 0.7;
          p = emits [BeginPath, Arc x y size 0 (pi * 2),
                     SetFillStyle (Color (white (brightness * 0.5))), Fill] p;
          (r, p) = rand p
      in if r > 0.85
         then (let glowSize = size * 4
               in emits [BeginPath, MoveTo (x - glowSize) y, LineTo (x + glowSize) (Some y),
                         MoveTo x (y - glowSize), LineTo x (Some (y + glowSize)),
                         SetStrokeStyle (Color (white (brightness * 0.2))), SetLineWidth 0.5,
                         Stroke] p)
         else p)"

definition drawStars :: "nat \<Rightarrow> nat \<Rightarrow> real \<Rightarrow> painter \<Rightarrow> painter option" where
  "drawStars w h complexity p =
     (let numStars = 30 + \<lfloor>complexity * 120\<rfloor>
      in forLoop 0 numStars (\<lambda>i p. Some (star w h p)) p)"

subsection \<open>Layer 6: drawStreakEffect\<close>

definition goldStops :: "(real \<times> css) list" where
  "goldStops =
     [(0, Lit (str ''rgba(255, 215, 0, 0.1)'')),
      (0.5, Lit (str ''rgba(255, 193, 7, 0.03)'')),
      (1, transparent)]"

definition glow :: "nat \<Rightarrow> nat \<Rightarrow> painter \<Rightarrow> painter" where
  "glow w h p0 =
     (let (r, p) = rand p0; x = r * real w;
          (r, p) = rand p; y = r * real h;
          (r, p) = rand p; size = 20 + r * 30;
          gradient = Radial x y 0 x y size goldStops
      in emits [BeginPath, Arc x y size 0 (pi * 2), SetFillStyle gradient, Fill] p)"

definition ringSegment :: "real \<Rightarrow> real \<Rightarrow> real \<Rightarrow> int \<Rightarrow> painter \<Rightarrow> painter" where
  "ringSegment cx cy radius i p0 =
     (let segments = 36;
          angle = (real_of_int i / segments) * pi * 2;
          nextAngle = ((real_of_int i + 1) / segments) * pi * 2;
          hue = (real_of_int i / segments) * 360;
          (r, p) = rand p0
      in emits [BeginPath, Arc cx cy (radius * (0.95 + r * 0.1)) angle nextAngle,
                SetStrokeStyle (Color (Hsla hue)), SetLineWidth 3, Stroke] p)"

definition rainbowRing :: "nat \<Rightarrow> nat \<Rightarrow> painter \<Rightarrow> painter option" where
  "rainbowRing w h p0 =
     (let cx = real w / 2;
          cy = real h / 2;
          radius = real (min w h) * 0.35;
          p = emits [BeginPath, Arc cx cy radius 0 (pi * 2),
                     SetStrokeStyle (Color (Lit (str ''rgba(255, 215, 0, 0.12)''))),
                     SetLineWidth 2, Stroke] p0
      in forLoop 0 36 (\<lambda>i p. Some (ringSegment cx cy radius i p)) p)"

definition diamond :: "nat \<Rightarrow> nat \<Rightarrow> painter \<Rightarrow> painter" where
  "diamond w h p =
     (let cx = real w / 2;
          cy = real h / 2;
          size = real (min w h) * 0.06;
          dGrad = Radial 0 0 0 0 0 size
            [(0, Lit (str ''rgba(255, 255, 255, 0.15)'')),
             (0.5, Lit (str ''rgba(255, 215, 0, 0.08)'')),
             (1, transparent)]
      in emits [Save, Translate cx cy, Rotate (pi / 4), BeginPath,
                Rect (- size / 2) (- size / 2) size size,
                SetFillStyle dGrad, Fill,
                SetStrokeStyle (Color (Lit (str ''rgba(255, 215, 0, 0.2)''))), SetLineWidth 1,
                Stroke, Restore] p)"

definition drawStreakEffect ::
  "nat \<Rightarrow> nat \<Rightarrow> jsstring list \<Rightarrow> int \<Rightarrow> painter \<Rightarrow> painter option" where
  "drawStreakEffect w h palette streak p0 =
     do {
       p \<leftarrow> (if streak \<ge> 3
             then (let numGlows = min streak 20
                   in forLoop 0 numGlows (\<lambda>i p. Some (glow w h p)) p0)
             else Some p0);
       p \<leftarrow> (if streak \<ge> 7 then rainbowRing w h p else Some p);
       Some (if streak \<ge> 14 then diamond w h p else p)
     }"

subsection \<open>Finish: drawVignette\<close>

definition drawVignette :: "nat \<Rightarrow> nat \<Rightarrow> painter \<Rightarrow> painter" where
  "drawVignette w h p =
     (let gradient = Radial (real w / 2) (real h / 2) (real (min w h) * 0.3)
                            (real w / 2) (real h / 2) (real (max w h) * 0.7)
            [(0, transparent), (1, Lit (str ''rgba(0, 0, 0, 0.4)''))]
      in emits [SetFillStyle gradient, FillRect 0 0 (real w) (real h)] p)"

section \<open>generate\<close>

text \<open>
  The canvas with the calls made on its 2D context so far; the sleep record; the
  options, where \<open>streak = None\<close> is a missing \<open>streak\<close> (\<open>options.streak || 0\<close>).
  \<open>generate\<close> returns the canvas after the render, \<open>None\<close> when a stage raises.
\<close>

record canvas =
  width :: nat
  height :: nat
  calls :: "call list"

record sleep_record =
  record_id :: jsstring
  bedtime :: jsstring
  wakeTime :: jsstring
  duration :: real
  artSeed :: int

record options =
  streak :: "int option"

text \<open>\<open>options.streak || 0\<close>.\<close>

definition generate_streak :: "options \<Rightarrow> int" where
  "generate_streak options = (case streak options of None \<Rightarrow> 0 | Some n \<Rightarrow> n)"

definition generate ::
  "(jsstring \<Rightarrow> int option) \<Rightarrow> canvas \<Rightarrow> sleep_record \<Rightarrow> options \<Rightarrow> canvas option" where
  "generate getHours canvas record options =
     (let w = width canvas;
          h = height canvas;
          streak = generate_streak options;
          p = \<lparr>ctx = calls canvas, rng = createRandom (artSeed record)\<rparr>;
          palette = selectPalette getHours (bedtime record);
          quality = generate_quality (duration record);
          complexity = generate_complexity (duration record)
      in do {
           p \<leftarrow> drawBackground w h palette p;
           p \<leftarrow> drawAurora w h palette complexity quality p;
           p \<leftarrow> drawOrbs w h palette (duration record) quality p;
           p \<leftarrow> drawGeometry w h palette quality p;
           p \<leftarrow> drawStars w h complexity p;
           p \<leftarrow> (if streak \<ge> 3 then drawStreakEffect w h palette streak p else Some p);
           Some (canvas\<lparr>calls := ctx (drawVignette w h p)\<rparr>)
         })"

section \<open>Observing the calls\<close>

text \<open>
  The state of \<open>generate\<close> after layers 1 to 5: the first five stage calls of its body,
  which do not read the options.
\<close>

definition layersOneToFive ::
  "(jsstring \<Rightarrow> int option) \<Rightarrow> canvas \<Rightarrow> sleep_record \<Rightarrow> painter option" where
  "layersOneToFive getHours canvas record =
     (let w = width canvas;
          h = height canvas;
          p = \<lparr>ctx = calls canvas, rng = createRandom (artSeed record)\<rparr>;
          palette = selectPalette getHours (bedtime record);
          quality = generate_quality (duration record);
          complexity = generate_complexity (duration record)
      in do {
           p \<leftarrow> drawBackground w h palette p;
           p \<leftarrow> drawAurora w h palette complexity quality p;
           p \<leftarrow> drawOrbs w h palette (duration record) quality p;
           p \<leftarrow> drawGeometry w h palette quality p;
           drawStars w h complexity p
         })"





fun isArc :: "call \<Rightarrow> bool" where
  "isArc (Arc x y r a b) = True"
| "isArc _ = False"

fun isFill :: "call \<Rightarrow> bool" where
  "isFill Fill = True"
| "isFill _ = False"

definition count :: "(call \<Rightarrow> bool) \<Rightarrow> call list \<Rightarrow> nat" where
  "count P cs = length (filter P cs)"















text \<open>The same painter on a context that already has the calls \<open>L\<close>.\<close>

definition prepend :: "call list \<Rightarrow> painter \<Rightarrow> painter" where
  "prepend L p = p\<lparr>ctx := L @ ctx p\<rparr>"

section \<open>Properties\<close>

subsection \<open>The random source\<close>

lemma toInt32_sint: "toInt32 x = sint (word_of_int x :: 32 word)"
  unfolding toInt32_def by (simp add: sint_sbintrunc')

lemma toUint32_uint: "toUint32 x = uint (word_of_int x :: 32 word)"
  unfolding toUint32_def by (simp add: uint_word_of_int take_bit_eq_mod)

lemma js_or_word: "js_or a b = sint ((word_of_int a :: 32 word) OR word_of_int b)"
  by (simp add: js_or_def toInt32_sint word_wi_log_defs [symmetric])

lemma js_xor_word: "js_xor a b = sint ((word_of_int a :: 32 word) XOR word_of_int b)"
  by (simp add: js_xor_def toInt32_sint word_wi_log_defs [symmetric])

lemma imul_word: "imul a b = sint ((word_of_int a :: 32 word) * word_of_int b)"
  by (simp add: imul_def toInt32_sint toUint32_uint wi_hom_mult [symmetric])

lemma js_ushr_word:
  assumes "0 \<le> n" "n < 32"
  shows "js_ushr a n = uint (drop_bit (nat n) (word_of_int a :: 32 word))"
proof -
  have "take_bit 32 n = n" using assms by (simp add: take_bit_int_eq_self)
  moreover have "take_bit 5 n = n" using assms by (simp add: take_bit_int_eq_self)
  ultimately show ?thesis
    by (simp add: js_ushr_def toUint32_def unsigned_drop_bit_eq uint_word_of_int
        take_bit_eq_mod)
qed

lemma rand_call_word:
  "rand_call s0 = (fst (spec_next (word_of_int s0)), sint (snd (spec_next (word_of_int s0))))"
proof -
  define s :: "32 word" where "s = word_of_int s0 + 0x6D2B79F5"
  define t :: "32 word" where "t = (s XOR drop_bit 15 s) * (s OR 1)"
  define t' :: "32 word" where "t' = (t + (t XOR drop_bit 7 t) * (t OR 61)) XOR t"
  have a: "js_or (s0 + 0x6d2b79f5) 0 = sint s"
    by (simp add: js_or_word s_def)
  have b: "imul (js_xor (sint s) (js_ushr (sint s) 15)) (js_or 1 (sint s)) = sint t"
    by (simp add: imul_word js_xor_word js_or_word js_ushr_word t_def or.commute)
  have c: "js_xor (sint t + imul (js_xor (sint t) (js_ushr (sint t) 7)) (js_or 61 (sint t))) (sint t)
             = sint t'"
    by (simp add: imul_word js_xor_word js_or_word js_ushr_word t'_def or.commute)
  have d: "js_ushr (js_xor (sint t') (js_ushr (sint t') 14)) 0 = uint (t' XOR drop_bit 14 t')"
    by (simp add: js_xor_word js_ushr_word)
  have e: "real_of_int (uint (t' XOR drop_bit 14 t')) = real (unat (t' XOR drop_bit 14 t'))"
    by simp
  show ?thesis
    unfolding rand_call_def spec_next_def Let_def
    by (simp only: a b c d e s_def [symmetric] t_def [symmetric] t'_def [symmetric] fst_conv snd_conv)
       simp
qed

lemma spec_next_range: "0 \<le> fst (spec_next w) \<and> fst (spec_next w) < 1"
proof -
  have "fst (spec_next w) = real (unat u) / 2 ^ 32 \<Longrightarrow> ?thesis" for u :: "32 word"
  proof -
    assume v: "fst (spec_next w) = real (unat u) / 2 ^ 32"
    have "unat u < 2 ^ 32"
      using unsigned_less [of u, where 'a = nat] by simp
    then have "real (unat u) < real (2 ^ 32)"
      by (simp only: of_nat_less_iff)
    moreover have "0 \<le> real (unat u)"
      by (simp only: of_nat_0_le_iff)
    ultimately show ?thesis unfolding v by simp
  qed
  then show ?thesis
    unfolding spec_next_def Let_def fst_conv by blast
qed

lemma rand_call_range: "0 \<le> fst (rand_call s) \<and> fst (rand_call s) < 1"
  using spec_next_range [of "word_of_int s"] by (simp add: rand_call_word)

lemma rand_state_word: "rand_state seed n = sint (spec_state seed n)"
proof (induction n)
  case 0
  show ?case by (simp add: createRandom_def js_or_word)
next
  case (Suc n)
  then show ?case by (simp add: rand_call_word)
qed

text \<open>
  Claim C2. For every seed and every number \<open>n\<close> of prior draws, the next call of the
  closure returns the value, and leaves the state, that the fixed algorithm of the
  specification gives on 32-bit words (add \<open>0x6D2B79F5\<close> with wrap-around, the two
  multiply-xor-shift rounds, the unsigned result divided by \<open>2^32\<close>), and the value
  lies in \<open>[0, 1)\<close>.
\<close>

theorem mulberry32_refines_spec:
  "rand_call (rand_state seed n)
     = (fst (spec_next (spec_state seed n)), sint (snd (spec_next (spec_state seed n))))
   \<and> rand_state seed n = sint (spec_state seed n)
   \<and> 0 \<le> fst (rand_call (rand_state seed n))
   \<and> fst (rand_call (rand_state seed n)) < 1"
  using rand_call_range [of "rand_state seed n"]
  by (simp add: rand_call_word rand_state_word)

subsection \<open>Metrics\<close>

text \<open>
  Claim C4. The quality metric is \<open>max(0, 1 - |duration - 7.5| / 5)\<close>; it is 1 at 7.5,
  0 at 2.5 and at 12.5, lies in \<open>[0, 1]\<close>, and is strictly smaller at a duration
  farther from 7.5 as long as the nearer one is above the clamp.
\<close>

theorem quality_formula:
  "generate_quality d = max 0 (1 - \<bar>d - 7.5\<bar> / 5)
   \<and> generate_quality 7.5 = 1
   \<and> generate_quality 2.5 = 0
   \<and> generate_quality 12.5 = 0
   \<and> 0 \<le> generate_quality d \<and> generate_quality d \<le> 1
   \<and> (\<bar>d1 - 7.5\<bar> < \<bar>d2 - 7.5\<bar> \<and> \<bar>d1 - 7.5\<bar> < 5
        \<longrightarrow> generate_quality d2 < generate_quality d1)"
  by (auto simp: generate_quality_def Let_def max_def)

theorem quality_formula_witness:
  "\<bar>(7::real) - 7.5\<bar> < \<bar>9 - 7.5\<bar> \<and> \<bar>(7::real) - 7.5\<bar> < 5
   \<and> generate_quality 9 < generate_quality 7"
  using quality_formula [of 0 7 9] by simp

text \<open>
  Claim C5 as stated fails for a negative duration: \<open>Math.min(1, -5 / 10)\<close> is
  \<open>-0.5\<close>, outside \<open>[0, 1]\<close>.
\<close>

theorem complexity_unit_interval_counterexample:
  "generate_complexity (- 5) = - (1 / 2)
   \<and> \<not> (0 \<le> generate_complexity (- 5) \<and> generate_complexity (- 5) \<le> 1)"
  by (simp add: generate_complexity_def)

text \<open>
  Claim C5, amended. The complexity metric is \<open>min(1, duration / 10)\<close>; it is 1 at 10
  and at 20 and 0.5 at 5; it never exceeds 1, and it is at least 0 exactly for the
  durations that are at least 0 (there is no lower clamp).
\<close>

theorem complexity_formula:
  "generate_complexity d = min 1 (d / 10)
   \<and> generate_complexity 10 = 1
   \<and> generate_complexity 20 = 1
   \<and> generate_complexity 5 = 0.5
   \<and> generate_complexity d \<le> 1
   \<and> (0 \<le> d \<longrightarrow> 0 \<le> generate_complexity d)
   \<and> (d < 0 \<longrightarrow> generate_complexity d < 0)"
  by (auto simp: generate_complexity_def min_def)

theorem complexity_formula_witness:
  "(0::real) \<le> 5 \<and> 0 \<le> generate_complexity 5 \<and> (- 5 :: real) < 0
   \<and> generate_complexity (- 5) < 0"
  using complexity_formula [of 5] complexity_formula [of "- 5"] by simp

subsection \<open>Colour utilities\<close>

lemma parseInt16_no_digit:
  "hexDigit c = None \<Longrightarrow> \<not> isWhiteSpace c \<Longrightarrow> c \<noteq> 43 \<Longrightarrow> c \<noteq> 45
   \<Longrightarrow> parseInt16 (c # cs) = None"
  by (cases cs) (auto simp: parseInt16_def hexDigit_def split: if_splits)

lemma parseInt16_two_digits:
  "hexDigit c = Some x \<Longrightarrow> hexDigit d = Some y
   \<Longrightarrow> parseInt16 [c, d] = Some (int (16 * x + y))"
  by (auto simp: parseInt16_def hexDigit_def isWhiteSpace_def split: if_splits)

lemma lerpChannel_None: "lerpChannel a b t = None \<longleftrightarrow> a = None \<or> b = None"
  by (simp add: lerpChannel_def split: option.splits)

text \<open>
  Claim C3 as stated fails: on \<open>#zz0000\<close> the red channel is \<open>NaN\<close>, not zero, in
  \<open>withAlpha\<close> and in \<open>lerpColor\<close>.
\<close>

theorem malformed_hex_zero_counterexample:
  "withAlpha (Some (str ''#zz0000'')) (1 / 2) = Some (Rgba None (Some 0) (Some 0) (1 / 2))
   \<and> withAlpha (Some (str ''#zz0000'')) (1 / 2) \<noteq> Some (spec_withAlpha (str ''#zz0000'') (1 / 2))
   \<and> lerpColor (str ''#zz0000'') (str ''#000000'') 0 = Rgb None (Some 0) (Some 0)
   \<and> lerpColor (str ''#zz0000'') (str ''#000000'') 0
        \<noteq> spec_lerpColor (str ''#zz0000'') (str ''#000000'') 0"
  by (simp add: withAlpha_def spec_withAlpha_def lerpColor_def spec_lerpColor_def
      channelOrZero_def lerpChannel_def math_round_def slice_def str_def parseInt16_def
      isWhiteSpace_def hexDigit_def)

text \<open>
  Claim C3, amended. On every string \<open>withAlpha\<close> returns the \<open>rgba()\<close> string and
  \<open>lerpColor\<close> the \<open>rgb()\<close> string without raising; each channel is what
  \<open>parseInt(..., 16)\<close> gives on its two-character slice, and a channel of \<open>lerpColor\<close>
  is \<open>NaN\<close> exactly when that channel of one of the two colours is. A slice that is
  empty, or that starts with a code unit that is no hexadecimal digit, white space or
  sign, parses to \<open>NaN\<close>, never to zero; two hexadecimal digits parse to their value.
\<close>

theorem malformed_hex_gives_nan:
  "(\<exists>r g b. withAlpha (Some hex) alpha = Some (Rgba r g b alpha)
       \<and> r = parseInt16 (slice 1 3 hex) \<and> g = parseInt16 (slice 3 5 hex)
       \<and> b = parseInt16 (slice 5 7 hex))
   \<and> (\<exists>r g b. lerpColor color1 color2 t = Rgb r g b
       \<and> (r = None \<longleftrightarrow> parseInt16 (slice 1 3 color1) = None \<or> parseInt16 (slice 1 3 color2) = None)
       \<and> (g = None \<longleftrightarrow> parseInt16 (slice 3 5 color1) = None \<or> parseInt16 (slice 3 5 color2) = None)
       \<and> (b = None \<longleftrightarrow> parseInt16 (slice 5 7 color1) = None \<or> parseInt16 (slice 5 7 color2) = None))
   \<and> parseInt16 [] = None
   \<and> (hexDigit c = None \<and> \<not> isWhiteSpace c \<and> c \<noteq> 43 \<and> c \<noteq> 45
        \<longrightarrow> parseInt16 (c # cs) = None)
   \<and> (hexDigit c = Some x \<and> hexDigit d = Some y \<longrightarrow> parseInt16 [c, d] = Some (int (16 * x + y)))"
  by (simp add: withAlpha_def lerpColor_def Let_def lerpChannel_None parseInt16_no_digit
      parseInt16_two_digits) (simp add: parseInt16_def)

theorem malformed_hex_gives_nan_witness:
  "hexDigit 122 = None \<and> \<not> isWhiteSpace 122 \<and> (122::nat) \<noteq> 43 \<and> (122::nat) \<noteq> 45
   \<and> parseInt16 (str ''zz'') = None
   \<and> hexDigit 102 = Some 15 \<and> parseInt16 (str ''ff'') = Some 255"
  using malformed_hex_gives_nan [of "[]" 0 "[]" "[]" 0 122 "[122]" 0 0]
    malformed_hex_gives_nan [of "[]" 0 "[]" "[]" 0 102 "[]" 15 102 15]
  by (simp add: hexDigit_def isWhiteSpace_def str_def)

subsection \<open>Palette selection\<close>

lemma palettes_distinct:
  "PALETTES_serene \<noteq> PALETTES_twilight" "PALETTES_serene \<noteq> PALETTES_midnight"
  "PALETTES_serene \<noteq> PALETTES_latenight" "PALETTES_twilight \<noteq> PALETTES_midnight"
  "PALETTES_twilight \<noteq> PALETTES_latenight" "PALETTES_midnight \<noteq> PALETTES_latenight"
  by (simp_all add: PALETTES_serene_def PALETTES_twilight_def PALETTES_midnight_def
      PALETTES_latenight_def str_def)

text \<open>
  Claim C6. For a bedtime whose local hour is \<open>hour\<close> in \<open>0..23\<close>, \<open>selectPalette\<close>
  returns serene iff \<open>20 \<le> hour < 22\<close>, twilight iff \<open>22 \<le> hour < 24\<close>, midnight iff
  \<open>0 \<le> hour < 2\<close>, and latenight iff \<open>2 \<le> hour < 20\<close>; hour 21 gives serene, 23
  twilight, 1 midnight and 10 latenight.
\<close>

theorem selectPalette_buckets:
  assumes "getHours bedtimeISO = Some hour" and "0 \<le> hour" and "hour < 24"
  shows "(selectPalette getHours bedtimeISO = PALETTES_serene \<longleftrightarrow> 20 \<le> hour \<and> hour < 22)
       \<and> (selectPalette getHours bedtimeISO = PALETTES_twilight \<longleftrightarrow> 22 \<le> hour \<and> hour < 24)
       \<and> (selectPalette getHours bedtimeISO = PALETTES_midnight \<longleftrightarrow> 0 \<le> hour \<and> hour < 2)
       \<and> (selectPalette getHours bedtimeISO = PALETTES_latenight \<longleftrightarrow> 2 \<le> hour \<and> hour < 20)
       \<and> (hour = 21 \<longrightarrow> selectPalette getHours bedtimeISO = PALETTES_serene)
       \<and> (hour = 23 \<longrightarrow> selectPalette getHours bedtimeISO = PALETTES_twilight)
       \<and> (hour = 1 \<longrightarrow> selectPalette getHours bedtimeISO = PALETTES_midnight)
       \<and> (hour = 10 \<longrightarrow> selectPalette getHours bedtimeISO = PALETTES_latenight)"
proof -
  have "selectPalette getHours bedtimeISO =
          (if 20 \<le> hour \<and> hour < 22 then PALETTES_serene
           else if 22 \<le> hour then PALETTES_twilight
           else if hour < 2 then PALETTES_midnight
           else PALETTES_latenight)"
    using assms by (simp add: selectPalette_def num_ge_def num_lt_def Let_def)
  then show ?thesis
    using assms palettes_distinct palettes_distinct [symmetric]
    by (simp split: if_splits)
qed

theorem selectPalette_buckets_witness:
  "selectPalette (\<lambda>s. Some 21) (str ''2024-01-15T21:30:00'') = PALETTES_serene
   \<and> selectPalette (\<lambda>s. Some 23) (str ''2024-01-15T23:30:00'') = PALETTES_twilight
   \<and> selectPalette (\<lambda>s. Some 1) (str ''2024-01-15T01:30:00'') = PALETTES_midnight
   \<and> selectPalette (\<lambda>s. Some 10) (str ''2024-01-15T10:30:00'') = PALETTES_latenight"
  using selectPalette_buckets [of "\<lambda>s. Some 21" "str ''2024-01-15T21:30:00''" 21]
    selectPalette_buckets [of "\<lambda>s. Some 23" "str ''2024-01-15T23:30:00''" 23]
    selectPalette_buckets [of "\<lambda>s. Some 1" "str ''2024-01-15T01:30:00''" 1]
    selectPalette_buckets [of "\<lambda>s. Some 10" "str ''2024-01-15T10:30:00''" 10]
  by simp

text \<open>
  Claim C10. On every bedtime string \<open>selectPalette\<close> returns one of the four
  palettes, and when the hour is \<open>NaN\<close> every comparison fails and the result is the
  latenight palette.
\<close>

theorem selectPalette_total:
  "selectPalette getHours bedtimeISO
     \<in> {PALETTES_serene, PALETTES_twilight, PALETTES_midnight, PALETTES_latenight}
   \<and> (getHours bedtimeISO = None \<longrightarrow> selectPalette getHours bedtimeISO = PALETTES_latenight)"
  by (simp add: selectPalette_def num_ge_def num_lt_def Let_def)

theorem selectPalette_total_witness:
  "(\<lambda>s. None :: int option) (str ''not a date'') = None
   \<and> selectPalette (\<lambda>s. None) (str ''not a date'') = PALETTES_latenight"
  using selectPalette_total [of "\<lambda>s. None" "str ''not a date''"] by simp

subsection \<open>Stages only append to the context\<close>

lemma fst_rand_prepend: "fst (rand (prepend L p)) = fst (rand p)"
  by (simp add: rand_def prepend_def split_beta)

lemma snd_rand_prepend: "snd (rand (prepend L p)) = prepend L (snd (rand p))"
  by (simp add: rand_def prepend_def split_beta)

lemma emit_prepend: "emit c (prepend L p) = prepend L (emit c p)"
  by (simp add: emit_def prepend_def)

lemma emits_prepend: "emits cs (prepend L p) = prepend L (emits cs p)"
  by (simp add: emits_def prepend_def)

lemmas prepend_simps = fst_rand_prepend snd_rand_prepend emit_prepend emits_prepend

lemma curvePoints_prepend:
  "curvePoints x w y f ph a (prepend L p) = prepend L (curvePoints x w y f ph a p)"
proof (induction x w y f ph a p rule: curvePoints.induct)
  case (1 x w y f ph a p)
  show ?case
    using "1.IH"
    by (simp add: curvePoints.simps [of x w y f ph a "prepend L p"]
        curvePoints.simps [of x w y f ph a p] emit_prepend)
qed

lemma forLoop_prepend:
  assumes "\<And>i p. body i (prepend L p) = map_option (prepend L) (body i p)"
  shows "forLoop i n body (prepend L p) = map_option (prepend L) (forLoop i n body p)"
  using assms
proof (induction i n body p rule: forLoop.induct)
  case (1 i n body p)
  show ?case
  proof (cases "body i p")
    case None
    then show ?thesis
      using "1.prems" [of i p]
      by (simp add: forLoop.simps [of i n body "prepend L p"] forLoop.simps [of i n body p])
  next
    case (Some q)
    then show ?thesis
      using "1.prems" [of i p] "1.IH" [OF _ Some "1.prems"]
      by (simp add: forLoop.simps [of i n body "prepend L p"] forLoop.simps [of i n body p])
  qed
qed

lemma bind_prepend:
  assumes "f (prepend L p) = map_option (prepend L) (f p)"
    and "\<And>q. g (prepend L q) = map_option (prepend L) (g q)"
  shows "Option.bind (f (prepend L p)) g = map_option (prepend L) (Option.bind (f p) g)"
  using assms by (cases "f p") simp_all

lemma drawBackground_prepend:
  "drawBackground w h palette (prepend L p)
     = map_option (prepend L) (drawBackground w h palette p)"
  by (simp add: drawBackground_def Let_def split_beta prepend_simps map_option_bind comp_def)

lemma auroraCurve_prepend:
  "auroraCurve w h palette quality (prepend L p)
     = map_option (prepend L) (auroraCurve w h palette quality p)"
  by (simp add: auroraCurve_def Let_def split_beta prepend_simps curvePoints_prepend
      map_option_bind comp_def)

lemma drawAurora_prepend:
  "drawAurora w h palette complexity quality (prepend L p)
     = map_option (prepend L) (drawAurora w h palette complexity quality p)"
  by (simp add: drawAurora_def forLoop_prepend auroraCurve_prepend)

lemma orb_prepend:
  "orb w h palette quality (prepend L p) = map_option (prepend L) (orb w h palette quality p)"
  by (simp add: orb_def Let_def split_beta prepend_simps map_option_bind comp_def)

lemma drawOrbs_prepend:
  "drawOrbs w h palette d quality (prepend L p)
     = map_option (prepend L) (drawOrbs w h palette d quality p)"
  by (simp add: drawOrbs_def forLoop_prepend orb_prepend)

lemma spoke_prepend:
  "spoke palette a m i (prepend L p) = map_option (prepend L) (spoke palette a m i p)"
  by (simp add: spoke_def Let_def split_beta prepend_simps map_option_bind comp_def)

lemma centerRing_prepend:
  "centerRing palette m quality i (prepend L p)
     = map_option (prepend L) (centerRing palette m quality i p)"
  by (simp add: centerRing_def Let_def split_beta prepend_simps map_option_bind comp_def)

lemma drawGeometry_prepend:
  "drawGeometry w h palette quality (prepend L p)
     = map_option (prepend L) (drawGeometry w h palette quality p)"
  unfolding drawGeometry_def Let_def emits_prepend
  by (intro bind_prepend forLoop_prepend spoke_prepend centerRing_prepend)
     (simp add: emit_prepend)

lemma star_prepend: "star w h (prepend L p) = prepend L (star w h p)"
  by (simp add: star_def Let_def split_beta prepend_simps)

lemma drawStars_prepend:
  "drawStars w h complexity (prepend L p) = map_option (prepend L) (drawStars w h complexity p)"
  by (simp add: drawStars_def forLoop_prepend star_prepend)

lemma glow_prepend: "glow w h (prepend L p) = prepend L (glow w h p)"
  by (simp add: glow_def Let_def split_beta prepend_simps)

lemma ringSegment_prepend:
  "ringSegment cx cy radius i (prepend L p) = prepend L (ringSegment cx cy radius i p)"
  by (simp add: ringSegment_def Let_def split_beta prepend_simps)

lemma rainbowRing_prepend:
  "rainbowRing w h (prepend L p) = map_option (prepend L) (rainbowRing w h p)"
  by (simp add: rainbowRing_def Let_def emits_prepend forLoop_prepend ringSegment_prepend)

lemma diamond_prepend: "diamond w h (prepend L p) = prepend L (diamond w h p)"
  by (simp add: diamond_def Let_def emits_prepend)

lemma drawStreakEffect_prepend:
  "drawStreakEffect w h palette n (prepend L p)
     = map_option (prepend L) (drawStreakEffect w h palette n p)"
  unfolding drawStreakEffect_def Let_def
  by (intro bind_prepend)
     (simp_all add: forLoop_prepend glow_prepend rainbowRing_prepend diamond_prepend)


subsection \<open>Stages do not raise on a palette of more than two colours\<close>

lemma rand_range: "0 \<le> fst (rand p)" "fst (rand p) < 1"
  using rand_call_range [of "rng p"] by (simp_all add: rand_def split_beta)

lemma rand_index:
  assumes "palette \<noteq> []"
  shows "paletteAt palette \<lfloor>fst (rand p) * real (length palette)\<rfloor> \<noteq> None"
proof -
  have "0 < real (length palette)" using assms by simp
  then have "fst (rand p) * real (length palette) < real (length palette)"
    using rand_range(2) [of p] by simp
  then have "\<lfloor>fst (rand p) * real (length palette)\<rfloor> < int (length palette)"
    by (simp add: floor_less_iff)
  moreover have "0 \<le> \<lfloor>fst (rand p) * real (length palette)\<rfloor>"
    using rand_range(1) [of p] by simp
  ultimately show ?thesis by (simp add: paletteAt_def)
qed

lemma rand_index_from_2:
  assumes "2 < length palette"
  shows "paletteAt palette (2 + \<lfloor>fst (rand p) * (real (length palette) - 2)\<rfloor>) \<noteq> None"
proof -
  have "0 < real (length palette) - 2" using assms by simp
  then have "fst (rand p) * (real (length palette) - 2) < real (length palette) - 2"
    and "0 \<le> fst (rand p) * (real (length palette) - 2)"
    using rand_range [of p] by simp_all
  then have "\<lfloor>fst (rand p) * (real (length palette) - 2)\<rfloor> < int (length palette) - 2"
    and "0 \<le> \<lfloor>fst (rand p) * (real (length palette) - 2)\<rfloor>"
    by (simp_all add: floor_less_iff)
  then show ?thesis by (simp add: paletteAt_def)
qed

lemma paletteAt_0: "palette \<noteq> [] \<Longrightarrow> paletteAt palette 0 \<noteq> None"
  by (simp add: paletteAt_def)

lemma withAlpha_eq_None: "withAlpha hex a = None \<longleftrightarrow> hex = None"
  by (simp add: withAlpha_def Let_def split: option.splits)

lemma orElse_eq_None: "b \<noteq> None \<Longrightarrow> orElse a b \<noteq> None"
  by (simp add: orElse_def split: option.splits)

lemma forLoop_total:
  assumes "\<And>i p. body i p \<noteq> None"
  shows "forLoop i n body p \<noteq> None"
  using assms
proof (induction i n body p rule: forLoop.induct)
  case (1 i n body p)
  show ?case
  proof (cases "body i p")
    case None
    then show ?thesis using "1.prems" [of i p] by simp
  next
    case (Some q)
    then show ?thesis
      using "1.IH" [OF _ Some "1.prems"]
      by (simp add: forLoop.simps [of i n body p])
  qed
qed

lemma bind_total:
  "m \<noteq> None \<Longrightarrow> (\<And>q. g q \<noteq> None) \<Longrightarrow> Option.bind m g \<noteq> None"
  by (cases m) simp_all

lemmas total_simps = withAlpha_eq_None orElse_eq_None rand_index rand_index_from_2 paletteAt_0
  bind_eq_None_conv

lemma drawBackground_total: "drawBackground w h palette p \<noteq> None"
  by (simp add: drawBackground_def Let_def split_beta total_simps)

lemma auroraCurve_total: "palette \<noteq> [] \<Longrightarrow> auroraCurve w h palette quality p \<noteq> None"
  by (simp add: auroraCurve_def Let_def split_beta total_simps)

lemma drawAurora_total: "palette \<noteq> [] \<Longrightarrow> drawAurora w h palette c q p \<noteq> None"
  by (simp add: drawAurora_def forLoop_total auroraCurve_total)

lemma orb_total: "palette \<noteq> [] \<Longrightarrow> orb w h palette quality p \<noteq> None"
  by (simp add: orb_def Let_def split_beta total_simps)

lemma drawOrbs_total: "palette \<noteq> [] \<Longrightarrow> drawOrbs w h palette d q p \<noteq> None"
  by (simp add: drawOrbs_def forLoop_total orb_total)

lemma spoke_total: "2 < length palette \<Longrightarrow> spoke palette a m i p \<noteq> None"
  by (simp add: spoke_def Let_def split_beta total_simps)

lemma centerRing_total: "palette \<noteq> [] \<Longrightarrow> centerRing palette m q i p \<noteq> None"
  by (simp add: centerRing_def Let_def split_beta total_simps)

lemma drawGeometry_total: "2 < length palette \<Longrightarrow> drawGeometry w h palette q p \<noteq> None"
  unfolding drawGeometry_def Let_def
  by (intro bind_total forLoop_total spoke_total centerRing_total) auto

lemma drawStars_total: "drawStars w h c p \<noteq> None"
  by (simp add: drawStars_def forLoop_total)

lemma rainbowRing_total: "rainbowRing w h p \<noteq> None"
  by (simp add: rainbowRing_def Let_def forLoop_total)

lemma drawStreakEffect_total: "drawStreakEffect w h palette n p \<noteq> None"
  unfolding drawStreakEffect_def Let_def
  by (intro bind_total) (simp_all add: forLoop_total rainbowRing_total del: not_None_eq)

lemma selectPalette_length: "length (selectPalette getHours b) = 8"
  by (simp add: selectPalette_def Let_def PALETTES_serene_def PALETTES_twilight_def
      PALETTES_midnight_def PALETTES_latenight_def)

subsection \<open>Counting calls\<close>

lemma ctx_emit: "ctx (emit c p) = ctx p @ [c]"
  by (simp add: emit_def)

lemma ctx_emits: "ctx (emits cs p) = ctx p @ cs"
  by (simp add: emits_def)

lemma ctx_rand: "ctx (snd (rand p)) = ctx p"
  by (simp add: rand_def split_beta)

lemma count_append: "count P (a @ b) = count P a + count P b"
  by (simp add: count_def)

lemma count_Nil: "count P [] = 0"
  by (simp add: count_def)

lemma count_Cons: "count P (c # cs) = (if P c then 1 else 0) + count P cs"
  by (simp add: count_def)

lemmas count_simps = ctx_emit ctx_emits ctx_rand count_append count_Nil count_Cons


lemma forLoop_count:
  assumes "\<And>i p q. body i p = Some q \<Longrightarrow> count P (ctx q) = count P (ctx p) + k"
  shows "forLoop i n body p = Some q \<Longrightarrow> count P (ctx q) = count P (ctx p) + k * nat (n - i)"
  using assms
proof (induction i n body p rule: forLoop.induct)
  case (1 i n body p)
  show ?case
  proof (cases "i < n")
    case True
    then obtain p' where b: "body i p = Some p'" and r: "forLoop (i + 1) n body p' = Some q"
      using "1.prems"(1) by (simp add: forLoop.simps [of i n body p] split: option.splits)
    have "count P (ctx q) = count P (ctx p') + k * nat (n - (i + 1))"
      using "1.IH" [OF True b r] "1.prems"(2) by blast
    moreover have "count P (ctx p') = count P (ctx p) + k"
      using "1.prems"(2) [OF b] .
    moreover have "nat (n - i) = Suc (nat (n - (i + 1)))"
      using True by simp
    ultimately show ?thesis by simp
  next
    case False
    then show ?thesis
      using "1.prems"(1) by (simp add: forLoop.simps [of i n body p])
  qed
qed









subsection \<open>Layers 1 to 5\<close>

lemma selectPalette_nonempty: "selectPalette getHours b \<noteq> []" "2 < length (selectPalette getHours b)"
  using selectPalette_length [of getHours b] by auto

lemma layersOneToFive_total: "layersOneToFive getHours c r \<noteq> None"
  unfolding layersOneToFive_def Let_def
  by (intro bind_total drawBackground_total drawAurora_total drawOrbs_total drawGeometry_total
      drawStars_total selectPalette_nonempty)






lemma layersOneToFive_appends:
  assumes "layersOneToFive getHours c r = Some q"
  shows "\<exists>ops. ctx q = calls c @ ops"
proof -
  let ?p0 = "\<lparr>ctx = [], rng = createRandom (artSeed r)\<rparr>"
  have p: "\<lparr>ctx = calls c, rng = createRandom (artSeed r)\<rparr> = prepend (calls c) ?p0"
    by (simp add: prepend_def)
  have "layersOneToFive getHours c r
          = map_option (prepend (calls c)) (layersOneToFive getHours (c\<lparr>calls := []\<rparr>) r)"
    unfolding layersOneToFive_def Let_def p
    by (simp del: bind_assoc)
       (intro bind_prepend drawBackground_prepend drawAurora_prepend drawOrbs_prepend
        drawGeometry_prepend drawStars_prepend)
  then obtain q0 where "q = prepend (calls c) q0"
    using assms by (cases "layersOneToFive getHours (c\<lparr>calls := []\<rparr>) r") auto
  then show ?thesis
    by (simp add: prepend_def)
qed

subsection \<open>Layer 6 and generate\<close>







lemma appends_from_prepend:
  assumes "\<And>L p. f (prepend L p) = map_option (prepend L) (f p)"
    and "f p = Some q"
  shows "\<exists>ops. ctx q = ctx p @ ops"
proof -
  have "p = prepend (ctx p) (p\<lparr>ctx := []\<rparr>)"
    by (simp add: prepend_def)
  then have "f p = map_option (prepend (ctx p)) (f (p\<lparr>ctx := []\<rparr>))"
    using assms(1) [of "ctx p" "p\<lparr>ctx := []\<rparr>"] by simp
  then obtain q0 where "q = prepend (ctx p) q0"
    using assms(2) by (cases "f (p\<lparr>ctx := []\<rparr>)") auto
  then show ?thesis by (simp add: prepend_def)
qed

text \<open>\<open>generate\<close> is layers 1 to 5, then the gated layer 6, then the vignette.\<close>

lemma generate_split:
  "generate getHours c r opts =
     do {
       p5 \<leftarrow> layersOneToFive getHours c r;
       p6 \<leftarrow> (if 3 \<le> generate_streak opts
              then drawStreakEffect (width c) (height c) (selectPalette getHours (bedtime r))
                     (generate_streak opts) p5
              else Some p5);
       Some (c\<lparr>calls := ctx (drawVignette (width c) (height c) p6)\<rparr>)
     }"
  by (simp add: generate_def layersOneToFive_def Let_def)




subsection \<open>The claims about the pipeline\<close>

lemma orb_arc_fill:
  assumes "orb w h palette quality p = Some q"
  shows "count isArc (ctx q) = count isArc (ctx p) + 1"
    and "count isFill (ctx q) = count isFill (ctx p) + 1"
  using assms
  by (auto simp: orb_def Let_def split_beta bind_eq_Some_conv count_simps)

lemma drawOrbs_arc_fill:
  assumes "drawOrbs w h palette d quality p = Some q"
  shows "count isArc (ctx q) = count isArc (ctx p) + nat (5 + \<lfloor>d * 2.5\<rfloor>)"
    and "count isFill (ctx q) = count isFill (ctx p) + nat (5 + \<lfloor>d * 2.5\<rfloor>)"
  using forLoop_count [of "\<lambda>i. orb w h palette quality" isArc 1 0 "5 + \<lfloor>d * 2.5\<rfloor>" p q]
    forLoop_count [of "\<lambda>i. orb w h palette quality" isFill 1 0 "5 + \<lfloor>d * 2.5\<rfloor>" p q]
    assms
  by (simp_all add: drawOrbs_def Let_def orb_arc_fill)

text \<open>
  Claim C9 as stated fails for a duration below \<open>-2\<close>: at duration \<open>-4\<close> the bound
  \<open>5 + floor(-4 * 2.5)\<close> is \<open>-5\<close>, the loop body never runs and no orb is drawn.
\<close>

theorem drawOrbs_negative_bound_counterexample:
  "drawOrbs 400 400 PALETTES_serene (- 4) 0 \<lparr>ctx = [], rng = 0\<rparr> = Some \<lparr>ctx = [], rng = 0\<rparr>
   \<and> count isArc [] = 0
   \<and> 5 + \<lfloor>(- 4 :: real) * 2.5\<rfloor> = - 5
   \<and> int (count isArc []) \<noteq> 5 + \<lfloor>(- 4 :: real) * 2.5\<rfloor>"
  by (simp add: drawOrbs_def Let_def forLoop.simps count_def)

text \<open>
  Claim C9, amended. On the palette \<open>selectPalette\<close> returns, \<open>drawOrbs\<close> does not
  raise, only appends calls, and draws \<open>max(0, 5 + floor(duration * 2.5))\<close> orbs (one
  \<open>arc\<close> and one \<open>fill\<close> each): exactly \<open>5 + floor(duration * 2.5)\<close> for every
  duration of at least \<open>-2\<close>, and 25 for duration 8.
\<close>

theorem drawOrbs_draws_numOrbs:
  "\<exists>q ops. drawOrbs w h (selectPalette getHours b) d quality p = Some q
     \<and> ctx q = ctx p @ ops
     \<and> count isArc ops = nat (5 + \<lfloor>d * 2.5\<rfloor>)
     \<and> count isFill ops = nat (5 + \<lfloor>d * 2.5\<rfloor>)
     \<and> (- 2 \<le> d \<longrightarrow> int (count isArc ops) = 5 + \<lfloor>d * 2.5\<rfloor>)
     \<and> (d = 8 \<longrightarrow> count isArc ops = 25)"
proof -
  obtain q where q: "drawOrbs w h (selectPalette getHours b) d quality p = Some q"
    using drawOrbs_total [OF selectPalette_nonempty(1), of w h getHours b d quality p] by auto
  obtain ops where ops: "ctx q = ctx p @ ops"
    using appends_from_prepend [of "drawOrbs w h (selectPalette getHours b) d quality" p q]
      drawOrbs_prepend q by auto
  have a: "count isArc ops = nat (5 + \<lfloor>d * 2.5\<rfloor>)"
    and f: "count isFill ops = nat (5 + \<lfloor>d * 2.5\<rfloor>)"
    using drawOrbs_arc_fill [OF q] ops by (simp_all add: count_append)
  have "0 \<le> 5 + \<lfloor>d * 2.5\<rfloor>" if "- 2 \<le> d"
  proof -
    have "(- 5 :: real) \<le> d * 2.5" using that by linarith
    then have "(- 5 :: int) \<le> \<lfloor>d * 2.5\<rfloor>" by (simp add: le_floor_iff)
    then show ?thesis by linarith
  qed
  moreover have "nat (5 + \<lfloor>d * 2.5\<rfloor>) = 25" if "d = 8"
    using that by simp
  ultimately show ?thesis
    using q ops a f by auto
qed

theorem drawOrbs_draws_numOrbs_witness:
  "- 2 \<le> (8 :: real)
   \<and> (\<exists>q ops. drawOrbs 400 400 (selectPalette (\<lambda>s. Some 23) []) 8 1 \<lparr>ctx = [], rng = 0\<rparr> = Some q
         \<and> ctx q = ops \<and> count isArc ops = 25 \<and> count isFill ops = 25)"
  using drawOrbs_draws_numOrbs [of 400 400 "\<lambda>s. Some 23" "[]" 8 1 "\<lparr>ctx = [], rng = 0\<rparr>"]
  by auto


subsection \<open>The streak effects as painted\<close>















text \<open>
  Claim C8. The state after layers 1 to 5 (the calls made and the variable of the random
  source) is computed without the options; for any two options the calls of \<open>generate\<close>
  start with the calls of layers 1 to 5, and layer 6 and the vignette run from that
  state.
\<close>

theorem streak_after_layers_one_to_five:
  "\<exists>p5 ops. layersOneToFive getHours c r = Some p5 \<and> ctx p5 = calls c @ ops
     \<and> (\<exists>c1 t1. generate getHours c r o1 = Some c1 \<and> calls c1 = ctx p5 @ t1)
     \<and> (\<exists>c2 t2. generate getHours c r o2 = Some c2 \<and> calls c2 = ctx p5 @ t2)
     \<and> generate getHours c r o1 =
          do {
            p6 \<leftarrow> (if 3 \<le> generate_streak o1
                   then drawStreakEffect (width c) (height c)
                          (selectPalette getHours (bedtime r)) (generate_streak o1) p5
                   else Some p5);
            Some (c\<lparr>calls := ctx (drawVignette (width c) (height c) p6)\<rparr>)
          }
     \<and> generate getHours c r o2 =
          do {
            p6 \<leftarrow> (if 3 \<le> generate_streak o2
                   then drawStreakEffect (width c) (height c)
                          (selectPalette getHours (bedtime r)) (generate_streak o2) p5
                   else Some p5);
            Some (c\<lparr>calls := ctx (drawVignette (width c) (height c) p6)\<rparr>)
          }"
proof -
  let ?w = "width c" and ?h = "height c" and ?pal = "selectPalette getHours (bedtime r)"
  obtain p5 where p5: "layersOneToFive getHours c r = Some p5"
    using layersOneToFive_total [of getHours c r] by auto
  obtain ops where ops: "ctx p5 = calls c @ ops"
    using layersOneToFive_appends [OF p5] by auto
  have tail: "\<exists>c' t. generate getHours c r opts = Some c' \<and> calls c' = ctx p5 @ t" for opts
  proof -
    let ?n = "generate_streak opts"
    obtain p6 where p6: "(if 3 \<le> ?n then drawStreakEffect ?w ?h ?pal ?n p5 else Some p5) = Some p6"
      using drawStreakEffect_total [of ?w ?h ?pal ?n p5] by (cases "3 \<le> ?n") auto
    then obtain t where t: "ctx p6 = ctx p5 @ t"
      using appends_from_prepend [of "drawStreakEffect ?w ?h ?pal ?n" p5 p6]
        drawStreakEffect_prepend
      by (cases "3 \<le> ?n") auto
    have "generate getHours c r opts = Some (c\<lparr>calls := ctx (drawVignette ?w ?h p6)\<rparr>)"
      using p5 p6 by (simp add: generate_split)
    moreover have "\<exists>t'. ctx (drawVignette ?w ?h p6) = ctx p5 @ t'"
      using t by (simp add: drawVignette_def Let_def ctx_emits)
    ultimately show ?thesis by auto
  qed
  show ?thesis
    using p5 ops tail [of o1] tail [of o2]
    by (simp add: generate_split)
qed

subsection \<open>The host's local hour\<close>







end
